theory Spec2Isabelle
  imports Main "HOL-Library.AList"
begin

section \<open>JSON documents and the decoder of encoding/json\<close>

text \<open>
  The fact merger (\<^verbatim>\<open>merge_json_deps\<close>, second program of \<^verbatim>\<open>src/unnamed/part_004\<close>)
  reads and writes JSON through Go's \<^verbatim>\<open>encoding/json\<close>. A document is modelled by the
  value it denotes: a \<^verbatim>\<open>json.RawMessage\<close> is the value of the bytes it holds (white
  space and the spelling of escapes are not part of the model, so "unchanged" below
  means equal as a JSON value). Numbers are integer literals of any size. An object
  keeps its members in document order, repeated keys included.
\<close>

datatype json =
    JNull
  | JBool bool
  | JNum int
  | JStr string
  | JArr "json list"
  | JObj "(string \<times> json) list"

text \<open>
  Decoding a number into \<^verbatim>\<open>interface{}\<close> goes through \<^verbatim>\<open>strconv.ParseFloat(s, 64)\<close>,
  which reports a range error once the literal rounds to infinity: from the midpoint
  between the largest float64 (\<open>2^1024 - 2^971\<close>) and \<open>2^1024\<close> on.
\<close>

definition float64_ok :: "int \<Rightarrow> bool" where
  "float64_ok n \<longleftrightarrow> \<bar>n\<bar> < 2 ^ 1024 - 2 ^ 970"

text \<open>Whether a value decodes into \<^verbatim>\<open>interface{}\<close> without an error being saved.\<close>

fun interface_ok :: "json \<Rightarrow> bool" where
  "interface_ok JNull = True"
| "interface_ok (JBool b) = True"
| "interface_ok (JNum n) = float64_ok n"
| "interface_ok (JStr s) = True"
| "interface_ok (JArr xs) = list_all interface_ok xs"
| "interface_ok (JObj kvs) = list_all (\<lambda>kv. interface_ok (snd kv)) kvs"

datatype unmarshal_error = SyntaxError | UnmarshalTypeError

text \<open>
  \<^verbatim>\<open>var node map[string]interface{}; json.Unmarshal(nodeData, &node)\<close>: an object
  becomes a map in which the last of several equal keys wins; \<^verbatim>\<open>null\<close> leaves the map
  nil and is no error (a nil map reads as an empty one); every other value is a type
  error, and so is an object holding a number that does not fit a float64. The values of
  the map are kept as JSON values: the merger only looks one of them up and asks whether
  it is a string.
\<close>

fun unmarshal_map :: "json \<Rightarrow> unmarshal_error + (string \<rightharpoonup> json)" where
  "unmarshal_map JNull = Inr Map.empty"
| "unmarshal_map (JObj kvs) =
     (if list_all (\<lambda>kv. interface_ok (snd kv)) kvs then Inr (map_of (rev kvs))
      else Inl UnmarshalTypeError)"
| "unmarshal_map (JBool b) = Inl UnmarshalTypeError"
| "unmarshal_map (JNum n) = Inl UnmarshalTypeError"
| "unmarshal_map (JStr s) = Inl UnmarshalTypeError"
| "unmarshal_map (JArr xs) = Inl UnmarshalTypeError"

text \<open>The type assertion \<^verbatim>\<open>v.(string)\<close> in its two-result form, on the result of a map lookup.\<close>

fun string_assert :: "json option \<Rightarrow> string \<times> bool" where
  "string_assert (Some (JStr s)) = (s, True)"
| "string_assert v = ('''', False)"

text \<open>
  The decoder matches an object key against the struct tag \<^verbatim>\<open>nodes\<close> exactly or under
  case folding; the fold of \<^verbatim>\<open>s\<close> also holds U+017F, in UTF-8 the bytes C5 BF.
\<close>

fun nodes_key :: "string \<Rightarrow> bool" where
  "nodes_key [a, b, c, d, e] =
     (a \<in> {CHR ''n'', CHR ''N''} \<and> b \<in> {CHR ''o'', CHR ''O''} \<and> c \<in> {CHR ''d'', CHR ''D''} \<and>
      d \<in> {CHR ''e'', CHR ''E''} \<and> e \<in> {CHR ''s'', CHR ''S''})"
| "nodes_key [a, b, c, d, e, f] =
     (a \<in> {CHR ''n'', CHR ''N''} \<and> b \<in> {CHR ''o'', CHR ''O''} \<and> c \<in> {CHR ''d'', CHR ''D''} \<and>
      d \<in> {CHR ''e'', CHR ''E''} \<and> e = CHR 0xC5 \<and> f = CHR 0xBF)"
| "nodes_key k = False"

text \<open>
  The members of a top-level object, decoded in document order into the field
  \<^verbatim>\<open>Nodes []json.RawMessage\<close> (second argument: the field so far). An array replaces
  the field by its elements, \<^verbatim>\<open>null\<close> resets it, any other value under the key is a
  type error; members under other keys are skipped.
\<close>

fun decode_members :: "(string \<times> json) list \<Rightarrow> json list \<Rightarrow> unmarshal_error + json list" where
  "decode_members [] nodes = Inr nodes"
| "decode_members ((k, v) # kvs) nodes =
     (if nodes_key k then
        (case v of
           JArr xs \<Rightarrow> decode_members kvs xs
         | JNull \<Rightarrow> decode_members kvs []
         | _ \<Rightarrow> Inl UnmarshalTypeError)
      else decode_members kvs nodes)"

text \<open>
  \<^verbatim>\<open>var jsonData JSONData; json.Unmarshal(data, &jsonData)\<close> on a syntactically valid
  document; the result is \<^verbatim>\<open>jsonData.Nodes\<close> (nil and empty are both \<open>[]\<close>).
\<close>

fun unmarshal_JSONData :: "json \<Rightarrow> unmarshal_error + json list" where
  "unmarshal_JSONData (JObj kvs) = decode_members kvs []"
| "unmarshal_JSONData JNull = Inr []"
| "unmarshal_JSONData (JBool b) = Inl UnmarshalTypeError"
| "unmarshal_JSONData (JNum n) = Inl UnmarshalTypeError"
| "unmarshal_JSONData (JStr s) = Inl UnmarshalTypeError"
| "unmarshal_JSONData (JArr xs) = Inl UnmarshalTypeError"

text \<open>
  \<^verbatim>\<open>json.Marshal(JSONData{Nodes: mergedNodes})\<close>: a nil slice is written as \<^verbatim>\<open>null\<close>,
  and \<^verbatim>\<open>mergedNodes\<close> is nil exactly when nothing was appended. The raw messages come
  out of a document that decoded, so the call has no failing input; the result type
  keeps the error the source tests for.
\<close>

definition marshal_JSONData :: "json list \<Rightarrow> json option" where
  "marshal_JSONData nodes =
     Some (JObj [(''nodes'', if nodes = [] then JNull else JArr nodes)])"

section \<open>The fact merger\<close>

text \<open>
  What \<^verbatim>\<open>os.Stat\<close> and \<^verbatim>\<open>ioutil.ReadFile\<close> find under a path: nothing
  (\<^verbatim>\<open>os.IsNotExist\<close>), something that cannot be read, bytes that are not JSON, or a
  JSON document.
\<close>

datatype input_file = NotExist | ReadError | InvalidJSON | Doc json

record fs_env =
  file_at :: "string \<Rightarrow> input_file"
  mkdir_fails :: "string \<Rightarrow> bool"
  write_fails :: "string \<Rightarrow> bool"

datatype merge_error = MkdirFailed | MarshalFailed | WriteFailed

datatype diagnostic =
    Usage
  | WarnRead string
  | WarnParse string
  | ErrorLine merge_error

text \<open>
  The variables of \<^verbatim>\<open>mergeJSONFiles\<close>: \<^verbatim>\<open>seenLabels map[string]bool\<close> only ever
  stores \<^verbatim>\<open>true\<close>, so it is the set of its keys; \<open>diag\<close> is what went to standard
  error.
\<close>

record merge_state =
  seenLabels :: "string set"
  mergedNodes :: "json list"
  diag :: "diagnostic list"

definition init_state :: merge_state where
  "init_state = \<lparr>seenLabels = {}, mergedNodes = [], diag = []\<rparr>"

text \<open>The body of the inner loop (\<^verbatim>\<open>part_004\<close>, lines 398-417).\<close>

definition process_node :: "json \<Rightarrow> merge_state \<Rightarrow> merge_state" where
  "process_node nodeData st =
     (case unmarshal_map nodeData of
        Inl err \<Rightarrow> st\<lparr>mergedNodes := mergedNodes st @ [nodeData]\<rparr>
      | Inr node \<Rightarrow>
          (case string_assert (node ''original_label'') of
             (originalLabel, hasLabel) \<Rightarrow>
               if hasLabel \<and> originalLabel \<noteq> '''' then
                 (if originalLabel \<notin> seenLabels st then
                    st\<lparr>seenLabels := insert originalLabel (seenLabels st),
                       mergedNodes := mergedNodes st @ [nodeData]\<rparr>
                  else st)
               else st\<lparr>mergedNodes := mergedNodes st @ [nodeData]\<rparr>))"

fun process_nodes :: "json list \<Rightarrow> merge_state \<Rightarrow> merge_state" where
  "process_nodes [] st = st"
| "process_nodes (nodeData # rest) st = process_nodes rest (process_node nodeData st)"

text \<open>The body of the outer loop (lines 378-418), for one input file.\<close>

definition process_file :: "fs_env \<Rightarrow> string \<Rightarrow> merge_state \<Rightarrow> merge_state" where
  "process_file env inputFile st =
     (case file_at env inputFile of
        NotExist \<Rightarrow> st
      | ReadError \<Rightarrow> st\<lparr>diag := diag st @ [WarnRead inputFile]\<rparr>
      | InvalidJSON \<Rightarrow> st\<lparr>diag := diag st @ [WarnParse inputFile]\<rparr>
      | Doc j \<Rightarrow>
          (case unmarshal_JSONData j of
             Inl err \<Rightarrow> st\<lparr>diag := diag st @ [WarnParse inputFile]\<rparr>
           | Inr nodes \<Rightarrow> process_nodes nodes st))"

fun process_files :: "fs_env \<Rightarrow> string list \<Rightarrow> merge_state \<Rightarrow> merge_state" where
  "process_files env [] st = st"
| "process_files env (inputFile # rest) st = process_files env rest (process_file env inputFile st)"

record merge_result =
  m_diag :: "diagnostic list"
  m_err :: "merge_error option"
  m_written :: "(string \<times> json) option"

definition mergeJSONFiles :: "fs_env \<Rightarrow> string \<Rightarrow> string list \<Rightarrow> merge_result" where
  "mergeJSONFiles env outputFile inputFiles =
     (let st = process_files env inputFiles init_state in
      if mkdir_fails env outputFile then
        \<lparr>m_diag = diag st, m_err = Some MkdirFailed, m_written = None\<rparr>
      else
        (case marshal_JSONData (mergedNodes st) of
           None \<Rightarrow> \<lparr>m_diag = diag st, m_err = Some MarshalFailed, m_written = None\<rparr>
         | Some resultData \<Rightarrow>
             if write_fails env outputFile then
               \<lparr>m_diag = diag st, m_err = Some WriteFailed, m_written = None\<rparr>
             else
               \<lparr>m_diag = diag st, m_err = None, m_written = Some (outputFile, resultData)\<rparr>))"

text \<open>
  The process: \<open>args\<close> is \<^verbatim>\<open>os.Args[1:]\<close>; the result is the exit code, standard
  error and the file written, if any.
\<close>

record proc_result =
  exit_code :: int
  stderr_out :: "diagnostic list"
  written :: "(string \<times> json) option"

fun merge_main :: "fs_env \<Rightarrow> string list \<Rightarrow> proc_result" where
  "merge_main env [] = \<lparr>exit_code = 1, stderr_out = [Usage], written = None\<rparr>"
| "merge_main env (outputFile # inputFiles) =
     (let r = mergeJSONFiles env outputFile inputFiles in
      case m_err r of
        Some e \<Rightarrow> \<lparr>exit_code = 1, stderr_out = m_diag r @ [ErrorLine e], written = None\<rparr>
      | None \<Rightarrow> \<lparr>exit_code = 0, stderr_out = m_diag r, written = m_written r\<rparr>)"

section \<open>Call graphs: the data of the analyzers\<close>

text \<open>
  The analyzers (\<^verbatim>\<open>vta_analyzer_bazel.go\<close>, \<^verbatim>\<open>vta_analyzer_simple.go\<close> and its earlier
  revision, the first program of \<^verbatim>\<open>src/unnamed/part_004\<close>) call the libraries
  \<^verbatim>\<open>go/packages\<close>, \<^verbatim>\<open>go/ssa\<close>, \<^verbatim>\<open>callgraph/cha\<close> and \<^verbatim>\<open>callgraph/vta\<close>. What these
  return is an input of the model; what the analyzers do with it is modelled.
\<close>













subsection \<open>Strings\<close>

fun HasPrefix :: "string \<Rightarrow> string \<Rightarrow> bool" where
  "HasPrefix s [] = True"
| "HasPrefix [] (p # ps) = False"
| "HasPrefix (c # cs) (p # ps) = (c = p \<and> HasPrefix cs ps)"




subsection \<open>Package filters\<close>





subsection \<open>Signature extraction and the extraction loops\<close>









section \<open>The analyzers as programs\<close>








subsection \<open>vta\_analyzer\_bazel.go\<close>






subsection \<open>The analysis scripts\<close>







subsection \<open>vta\_analyzer\_simple.go and its earlier revision in part\_004\<close>














section \<open>Fact-file names\<close>

text \<open>
  \<^verbatim>\<open>_compute_package_version_name\<close> (Starlark, \<^verbatim>\<open>utils.bzl\<close>, held in
  \<^verbatim>\<open>vta_analyzer_bazel.go\<close> at lines 468-479). \<^verbatim>\<open>s.replace(old, new)\<close> replaces the
  occurrences of \<open>old\<close> from left to right, without overlap; with an empty \<open>old\<close>
  it puts \<open>new\<close> before every character and at the end.
\<close>

function str_replace :: "string \<Rightarrow> string \<Rightarrow> string \<Rightarrow> string" where
  "str_replace [] old new = (if old = [] then new else [])"
| "str_replace (c # cs) old new =
     (if old = [] then new @ c # str_replace cs old new
      else if HasPrefix (c # cs) old then new @ str_replace (drop (length old) (c # cs)) old new
      else c # str_replace cs old new)"
  by pat_completeness auto
termination
  by (relation "measure (\<lambda>(s, old, new). length s)") auto

definition compute_package_version_name :: "string \<Rightarrow> string" where
  "compute_package_version_name target =
     (let target_path = str_replace target ''@//'' ''_'';
          target_path = str_replace target_path ''@'' '''';
          target_path = str_replace target_path ''//:'' ''_'';
          target_path = str_replace target_path ''/'' ''_'';
          target_path = str_replace target_path '':'' ''_''
      in if HasPrefix target_path ''_'' then drop 1 target_path else target_path)"


section \<open>Vocabulary of the properties\<close>

subsection \<open>Fact merger\<close>

text \<open>
  The key the merger deduplicates a record by: the string under \<^verbatim>\<open>original_label\<close>
  when the record decodes as a keyed object and that string is not empty (the test of
  lines 400-408); \<open>None\<close> for every record the merger passes through.
\<close>

definition label_of :: "json \<Rightarrow> string option" where
  "label_of nodeData =
     (case unmarshal_map nodeData of
        Inl err \<Rightarrow> None
      | Inr node \<Rightarrow>
          (case string_assert (node ''original_label'') of
             (originalLabel, hasLabel) \<Rightarrow>
               if hasLabel \<and> originalLabel \<noteq> '''' then Some originalLabel else None))"

text \<open>What a record carries under the key \<^verbatim>\<open>original_label\<close>, whatever it is.\<close>

fun original_label_field :: "json \<Rightarrow> json option" where
  "original_label_field (JObj kvs) = map_of (rev kvs) ''original_label''"
| "original_label_field v = None"

text \<open>The records of a document, and those an input file contributes.\<close>

definition doc_nodes :: "json \<Rightarrow> json list" where
  "doc_nodes j = (case unmarshal_JSONData j of Inl err \<Rightarrow> [] | Inr nodes \<Rightarrow> nodes)"

definition file_nodes :: "fs_env \<Rightarrow> string \<Rightarrow> json list" where
  "file_nodes env inputFile = (case file_at env inputFile of Doc j \<Rightarrow> doc_nodes j | _ \<Rightarrow> [])"

text \<open>All input records, in the order the merger meets them.\<close>

definition input_stream :: "fs_env \<Rightarrow> string list \<Rightarrow> json list" where
  "input_stream env inputFiles = concat (map (file_nodes env) inputFiles)"

text \<open>
  Going through the input files in argument order: the first record with label \<open>l\<close>
  of the earliest file that has one.
\<close>

fun first_labelled :: "fs_env \<Rightarrow> string list \<Rightarrow> string \<Rightarrow> json option" where
  "first_labelled env [] l = None"
| "first_labelled env (inputFile # rest) l =
     (case find (\<lambda>n. label_of n = Some l) (file_nodes env inputFile) of
        Some r \<Rightarrow> Some r
      | None \<Rightarrow> first_labelled env rest l)"

text \<open>A file the merger skips: missing, unreadable, or not decodable.\<close>

definition missing :: "fs_env \<Rightarrow> string \<Rightarrow> bool" where
  "missing env inputFile \<longleftrightarrow> file_at env inputFile = NotExist"

definition bad_input :: "fs_env \<Rightarrow> string \<Rightarrow> bool" where
  "bad_input env inputFile \<longleftrightarrow>
     (case file_at env inputFile of
        NotExist \<Rightarrow> False
      | ReadError \<Rightarrow> True
      | InvalidJSON \<Rightarrow> True
      | Doc j \<Rightarrow> (case unmarshal_JSONData j of Inl err \<Rightarrow> True | Inr nodes \<Rightarrow> False))"

definition file_warnings :: "fs_env \<Rightarrow> string \<Rightarrow> diagnostic list" where
  "file_warnings env inputFile =
     (case file_at env inputFile of
        NotExist \<Rightarrow> []
      | ReadError \<Rightarrow> [WarnRead inputFile]
      | InvalidJSON \<Rightarrow> [WarnParse inputFile]
      | Doc j \<Rightarrow> (case unmarshal_JSONData j of Inl err \<Rightarrow> [WarnParse inputFile] | Inr nodes \<Rightarrow> []))"

text \<open>
  First-seen-wins over a stream of records, given the labels seen before it: the closed
  form of the inner loop, used in the proofs.
\<close>

fun dedup :: "string set \<Rightarrow> json list \<Rightarrow> json list" where
  "dedup S [] = []"
| "dedup S (n # ns) =
     (case label_of n of
        None \<Rightarrow> n # dedup S ns
      | Some l \<Rightarrow> if l \<in> S then dedup S ns else n # dedup (insert l S) ns)"

definition labels_of :: "json list \<Rightarrow> string set" where
  "labels_of ns = {l. \<exists>n. n \<in> set ns \<and> label_of n = Some l}"

subsection \<open>Call graphs\<close>






section \<open>Example inputs\<close>

definition rec_A :: json where
  "rec_A = JObj [(''original_label'', JStr ''//x:a''), (''version'', JStr ''1.0'')]"

definition rec_B :: json where
  "rec_B = JObj [(''original_label'', JStr ''//x:a''), (''version'', JStr ''2.0'')]"

definition rec_plain :: json where
  "rec_plain = JObj [(''name'', JStr ''plain'')]"

definition rec_E1 :: json where
  "rec_E1 = JObj [(''original_label'', JStr ''''), (''version'', JStr ''1'')]"

definition rec_E2 :: json where
  "rec_E2 = JObj [(''original_label'', JStr ''''), (''version'', JStr ''2'')]"

definition rec_huge :: json where
  "rec_huge = JObj [(''original_label'', JStr ''//x:a''), (''weight'', JNum (2 ^ 1024))]"

definition rec_numbered :: json where
  "rec_numbered = JObj [(''original_label'', JNum 3)]"

definition nodes_doc :: "json list \<Rightarrow> json" where
  "nodes_doc ns = JObj [(''nodes'', JArr ns)]"

text \<open>
  A file system: two fact files with a record for the same label, each with an
  unlabelled record; two files with a record whose label is empty; a file of records
  that are not keyed objects, or carry a number as label, or hold a number beyond the
  float64 range; a file that is not JSON; a directory; the merged output of the first
  two files. Nothing else exists. Only the path under \<^verbatim>\<open>/ro\<close> cannot be written.
\<close>

definition fs_ex :: fs_env where
  "fs_ex =
     \<lparr>file_at = (\<lambda>p.
        if p = ''a.json'' then Doc (nodes_doc [rec_A, rec_plain])
        else if p = ''b.json'' then Doc (nodes_doc [rec_B, rec_plain])
        else if p = ''e1.json'' then Doc (nodes_doc [rec_E1])
        else if p = ''e2.json'' then Doc (nodes_doc [rec_E2])
        else if p = ''odd.json'' then Doc (nodes_doc [JNum 7, JNull, rec_numbered, rec_huge])
        else if p = ''bad.json'' then InvalidJSON
        else if p = ''dir'' then ReadError
        else if p = ''merged.json'' then Doc (nodes_doc [rec_A, rec_plain, rec_plain])
        else NotExist),
      mkdir_fails = (\<lambda>p. False),
      write_fails = (\<lambda>p. p = ''/ro/out.json'')\<rparr>"
















































section \<open>Fact merger: the loops in closed form\<close>

lemma labels_of_Nil: "labels_of [] = {}"
  by (simp add: labels_of_def)

lemma labels_of_Cons:
  "labels_of (n # ns) =
     (case label_of n of None \<Rightarrow> labels_of ns | Some l \<Rightarrow> insert l (labels_of ns))"
  by (auto simp: labels_of_def split: option.splits)

lemma labels_of_append: "labels_of (xs @ ys) = labels_of xs \<union> labels_of ys"
  by (auto simp: labels_of_def)

lemma process_node_label:
  "process_node n st =
     (case label_of n of
        None \<Rightarrow> st\<lparr>mergedNodes := mergedNodes st @ [n]\<rparr>
      | Some l \<Rightarrow>
          if l \<in> seenLabels st then st
          else st\<lparr>seenLabels := insert l (seenLabels st), mergedNodes := mergedNodes st @ [n]\<rparr>)"
  by (auto simp: process_node_def label_of_def split: sum.splits prod.splits)

lemma process_nodes_closed:
  "process_nodes ns st =
     st\<lparr>seenLabels := seenLabels st \<union> labels_of ns,
        mergedNodes := mergedNodes st @ dedup (seenLabels st) ns\<rparr>"
proof (induction ns arbitrary: st)
  case Nil
  show ?case by (simp add: labels_of_Nil)
next
  case (Cons n ns)
  show ?case
    by (cases "label_of n")
       (auto simp: Cons.IH process_node_label labels_of_Cons insert_absorb)
qed

lemma process_file_closed:
  "process_file env p st =
     st\<lparr>seenLabels := seenLabels st \<union> labels_of (file_nodes env p),
        mergedNodes := mergedNodes st @ dedup (seenLabels st) (file_nodes env p),
        diag := diag st @ file_warnings env p\<rparr>"
  by (auto simp: process_file_def file_nodes_def doc_nodes_def file_warnings_def
                 process_nodes_closed labels_of_Nil
           split: input_file.splits sum.splits)

lemma dedup_append:
  "dedup S (xs @ ys) = dedup S xs @ dedup (S \<union> labels_of xs) ys"
proof (induction xs arbitrary: S)
  case Nil
  show ?case by (simp add: labels_of_Nil)
next
  case (Cons n ns)
  show ?case
    by (cases "label_of n") (auto simp: Cons.IH labels_of_Cons insert_absorb)
qed

lemma process_files_closed:
  "process_files env ps st =
     st\<lparr>seenLabels := seenLabels st \<union> labels_of (input_stream env ps),
        mergedNodes := mergedNodes st @ dedup (seenLabels st) (input_stream env ps),
        diag := diag st @ concat (map (file_warnings env) ps)\<rparr>"
proof (induction ps arbitrary: st)
  case Nil
  show ?case by (simp add: input_stream_def labels_of_Nil)
next
  case (Cons p ps)
  show ?case
    by (simp add: Cons.IH process_file_closed input_stream_def dedup_append
                  labels_of_append Un_assoc)
qed

lemma merged_nodes_closed:
  "mergedNodes (process_files env ps init_state) = dedup {} (input_stream env ps)"
  by (simp add: process_files_closed init_state_def)

lemma diag_closed:
  "diag (process_files env ps init_state) = concat (map (file_warnings env) ps)"
  by (simp add: process_files_closed init_state_def)

lemma dedup_unlabelled:
  "filter (\<lambda>n. label_of n = None) (dedup S ns) = filter (\<lambda>n. label_of n = None) ns"
  by (induction ns arbitrary: S) (auto split: option.splits)

lemma dedup_seen:
  "l \<in> S \<Longrightarrow> filter (\<lambda>n. label_of n = Some l) (dedup S ns) = []"
  by (induction ns arbitrary: S) (auto split: option.splits)

lemma dedup_labelled:
  "l \<notin> S \<Longrightarrow>
   filter (\<lambda>n. label_of n = Some l) (dedup S ns) =
     (case find (\<lambda>n. label_of n = Some l) ns of None \<Rightarrow> [] | Some r \<Rightarrow> [r])"
proof (induction ns arbitrary: S)
  case Nil
  show ?case by simp
next
  case (Cons n ns)
  then show ?case
    by (cases "label_of n") (auto simp: dedup_seen)
qed

lemma dedup_idem: "dedup S (dedup S ns) = dedup S ns"
  by (induction ns arbitrary: S) (auto split: option.splits)

lemma find_over_append:
  "find P (xs @ ys) = (case find P xs of None \<Rightarrow> find P ys | Some x \<Rightarrow> Some x)"
  by (induction xs) auto

lemma find_input_stream:
  "find (\<lambda>n. label_of n = Some l) (input_stream env ps) = first_labelled env ps l"
proof (induction ps)
  case Nil
  show ?case by (simp add: input_stream_def)
next
  case (Cons p ps)
  then show ?case
    by (simp add: input_stream_def find_over_append split: option.splits)
qed

lemma doc_nodes_marshal:
  "marshal_JSONData ns = Some d \<Longrightarrow> doc_nodes d = ns"
  by (auto simp: marshal_JSONData_def doc_nodes_def)

text \<open>What a run of the merger writes, when it writes.\<close>

lemma merge_main_written:
  "written (merge_main env (outputFile # inputFiles)) = Some (path, doc) \<Longrightarrow>
   path = outputFile \<and>
   marshal_JSONData (dedup {} (input_stream env inputFiles)) = Some doc"
  by (auto simp: mergeJSONFiles_def Let_def merged_nodes_closed
           split: if_splits option.splits)

lemma merge_main_written_nodes:
  "written (merge_main env (outputFile # inputFiles)) = Some (path, doc) \<Longrightarrow>
   doc_nodes doc = dedup {} (input_stream env inputFiles)"
  using merge_main_written doc_nodes_marshal by blast

lemma merge_main_writes:
  "\<not> mkdir_fails env outputFile \<Longrightarrow> \<not> write_fails env outputFile \<Longrightarrow>
   marshal_JSONData (dedup {} (input_stream env inputFiles)) = Some doc \<Longrightarrow>
   written (merge_main env (outputFile # inputFiles)) = Some (outputFile, doc)"
  by (simp add: mergeJSONFiles_def Let_def merged_nodes_closed)

lemma merge_main_output:
  assumes "\<not> mkdir_fails env outputFile" and "\<not> write_fails env outputFile"
  shows "\<exists>doc. written (merge_main env (outputFile # inputFiles)) = Some (outputFile, doc) \<and>
               doc_nodes doc = dedup {} (input_stream env inputFiles)"
proof -
  obtain doc where doc: "marshal_JSONData (dedup {} (input_stream env inputFiles)) = Some doc"
    by (simp add: marshal_JSONData_def)
  have "written (merge_main env (outputFile # inputFiles)) = Some (outputFile, doc)"
    using assms doc by (rule merge_main_writes)
  moreover have "doc_nodes doc = dedup {} (input_stream env inputFiles)"
    using doc by (rule doc_nodes_marshal)
  ultimately show ?thesis by blast
qed

lemma fs_ex_run:
  "written (merge_main fs_ex [''out.json'', ''a.json'', ''bad.json'', ''b.json'']) =
     Some (''out.json'', nodes_doc [rec_A, rec_plain, rec_plain])"
  by (simp add: mergeJSONFiles_def Let_def fs_ex_def init_state_def process_file_def
                process_node_def nodes_doc_def rec_A_def rec_B_def rec_plain_def
                marshal_JSONData_def)

lemma fs_ex_odd_run:
  "written (merge_main fs_ex [''out.json'', ''odd.json'', ''odd.json'']) =
     Some (''out.json'',
           nodes_doc [JNum 7, JNull, rec_numbered, rec_huge, JNum 7, JNull, rec_numbered, rec_huge])"
  by (simp add: mergeJSONFiles_def Let_def fs_ex_def init_state_def process_file_def
                process_node_def nodes_doc_def rec_numbered_def rec_huge_def float64_ok_def
                marshal_JSONData_def)


section \<open>Fact merger: the properties\<close>

lemma label_of_None_iff:
  "label_of n = None \<longleftrightarrow>
     (\<exists>e. unmarshal_map n = Inl e) \<or>
     (\<exists>node. unmarshal_map n = Inr node \<and> (\<forall>s. node ''original_label'' = Some (JStr s) \<longrightarrow> s = ''''))"
proof (cases "unmarshal_map n")
  case (Inl e)
  then show ?thesis by (simp add: label_of_def)
next
  case (Inr node)
  show ?thesis
  proof (cases "node ''original_label''")
    case None
    with Inr show ?thesis by (simp add: label_of_def)
  next
    case (Some v)
    with Inr show ?thesis by (cases v) (auto simp: label_of_def)
  qed
qed

lemma label_of_Some_iff:
  "label_of n = Some l \<longleftrightarrow>
     l \<noteq> [] \<and> (\<exists>node. unmarshal_map n = Inr node \<and> node ''original_label'' = Some (JStr l))"
proof (cases "unmarshal_map n")
  case (Inl e)
  then show ?thesis by (simp add: label_of_def)
next
  case (Inr node)
  show ?thesis
  proof (cases "node ''original_label''")
    case None
    with Inr show ?thesis by (simp add: label_of_def)
  next
    case (Some v)
    with Inr show ?thesis by (cases v) (auto simp: label_of_def)
  qed
qed

text \<open>
  C1, as amended. For every sequence of input fact files given to the merger in argument
  order, the merged output (which the merger writes whenever it can create the output
  directory and write the output file) contains at most one record per distinct
  non-empty string \<^verbatim>\<open>original_label\<close> of a record that decodes as a keyed object,
  and the record retained for such a label is the first one with it in the earliest
  input file (by argument order) that has one; later records with the same label are
  dropped even if their content differs.
\<close>

theorem merge_first_seen_wins:
  assumes "\<not> mkdir_fails env outputFile" and "\<not> write_fails env outputFile"
  shows "\<exists>doc. written (merge_main env (outputFile # inputFiles)) = Some (outputFile, doc) \<and>
           (\<forall>l. length (filter (\<lambda>n. label_of n = Some l) (doc_nodes doc)) \<le> 1 \<and>
                filter (\<lambda>n. label_of n = Some l) (doc_nodes doc) =
                  (case first_labelled env inputFiles l of None \<Rightarrow> [] | Some r \<Rightarrow> [r]))"
proof -
  from assms obtain doc
    where out: "written (merge_main env (outputFile # inputFiles)) = Some (outputFile, doc)"
      and nodes: "doc_nodes doc = dedup {} (input_stream env inputFiles)"
    using merge_main_output by blast
  have kept: "filter (\<lambda>n. label_of n = Some l) (doc_nodes doc) =
                (case first_labelled env inputFiles l of None \<Rightarrow> [] | Some r \<Rightarrow> [r])" for l
    by (simp add: nodes dedup_labelled find_input_stream)
  have "length (filter (\<lambda>n. label_of n = Some l) (doc_nodes doc)) \<le> 1" for l
    by (simp add: kept split: option.splits)
  with out kept show ?thesis by blast
qed

theorem merge_first_seen_wins_witness:
  "written (merge_main fs_ex [''out.json'', ''a.json'', ''bad.json'', ''b.json'']) =
     Some (''out.json'', nodes_doc [rec_A, rec_plain, rec_plain]) \<and>
   first_labelled fs_ex [''a.json'', ''bad.json'', ''b.json''] ''//x:a'' = Some rec_A \<and>
   label_of rec_B = Some ''//x:a'' \<and> rec_A \<noteq> rec_B \<and>
   filter (\<lambda>n. label_of n = Some ''//x:a'') (doc_nodes (nodes_doc [rec_A, rec_plain, rec_plain])) =
     [rec_A]"
proof -
  have first: "first_labelled fs_ex [''a.json'', ''bad.json'', ''b.json''] ''//x:a'' = Some rec_A"
    by (simp add: file_nodes_def doc_nodes_def fs_ex_def nodes_doc_def label_of_def
                  rec_A_def rec_B_def rec_plain_def)
  have b: "label_of rec_B = Some ''//x:a''" "rec_A \<noteq> rec_B"
    by (simp_all add: label_of_def rec_A_def rec_B_def)
  have w: "\<not> mkdir_fails fs_ex ''out.json''" "\<not> write_fails fs_ex ''out.json''"
    by (simp_all add: fs_ex_def)
  from merge_first_seen_wins [OF w, of "[''a.json'', ''bad.json'', ''b.json'']"] fs_ex_run first
  have "filter (\<lambda>n. label_of n = Some ''//x:a'') (doc_nodes (nodes_doc [rec_A, rec_plain, rec_plain])) =
          [rec_A]"
    by auto
  with fs_ex_run first b show ?thesis by blast
qed

text \<open>
  C1 as stated fails. Two input files each hold a record whose \<^verbatim>\<open>original_label\<close> is
  the empty string: both records are in the output. And a file with a record labelled
  \<^verbatim>\<open>//x:a\<close> is merged with two copies of a file that holds a record with the number
  3 as its \<^verbatim>\<open>original_label\<close> and a record labelled \<^verbatim>\<open>//x:a\<close> that does not
  decode as a keyed object (one of its numbers is beyond the float64 range): the output
  has the number-labelled record twice and three records labelled \<^verbatim>\<open>//x:a\<close>.
\<close>

theorem merge_same_label_counterexample:
  "written (merge_main fs_ex [''out.json'', ''e1.json'', ''e2.json'']) =
     Some (''out.json'', nodes_doc [rec_E1, rec_E2]) \<and>
   original_label_field rec_E1 = Some (JStr '''') \<and>
   original_label_field rec_E2 = Some (JStr '''') \<and>
   rec_E1 \<noteq> rec_E2 \<and>
   written (merge_main fs_ex [''out.json'', ''a.json'', ''odd.json'', ''odd.json'']) =
     Some (''out.json'',
           nodes_doc [rec_A, rec_plain, JNum 7, JNull, rec_numbered, rec_huge,
                      JNum 7, JNull, rec_numbered, rec_huge]) \<and>
   original_label_field rec_A = Some (JStr ''//x:a'') \<and>
   original_label_field rec_huge = Some (JStr ''//x:a'') \<and>
   original_label_field rec_numbered = Some (JNum 3) \<and>
   rec_A \<noteq> rec_huge"
  by (simp add: mergeJSONFiles_def Let_def fs_ex_def init_state_def process_file_def
                process_node_def nodes_doc_def rec_E1_def rec_E2_def rec_A_def rec_plain_def
                rec_numbered_def rec_huge_def float64_ok_def marshal_JSONData_def)

text \<open>
  C7. Every input record that lacks a non-empty \<^verbatim>\<open>original_label\<close> (or does not
  decode as a keyed object), which is what \<open>label_of n = None\<close> says
  (\<open>label_of_None_iff\<close>), is in the merger's output, unchanged, as often as it
  occurs in the input files and in the same order: such records are never deduplicated
  and never dropped. The merger writes this output whenever it can create the output
  directory and write the output file.
\<close>

theorem merge_pass_through:
  assumes "\<not> mkdir_fails env outputFile" and "\<not> write_fails env outputFile"
  shows "\<exists>doc. written (merge_main env (outputFile # inputFiles)) = Some (outputFile, doc) \<and>
           filter (\<lambda>n. label_of n = None) (doc_nodes doc) =
             filter (\<lambda>n. label_of n = None) (input_stream env inputFiles)"
proof -
  from assms obtain doc
    where out: "written (merge_main env (outputFile # inputFiles)) = Some (outputFile, doc)"
      and nodes: "doc_nodes doc = dedup {} (input_stream env inputFiles)"
    using merge_main_output by blast
  have "filter (\<lambda>n. label_of n = None) (doc_nodes doc) =
          filter (\<lambda>n. label_of n = None) (input_stream env inputFiles)"
    by (simp add: nodes dedup_unlabelled)
  with out show ?thesis by blast
qed

theorem merge_pass_through_witness:
  "input_stream fs_ex [''a.json'', ''bad.json'', ''b.json''] = [rec_A, rec_plain, rec_B, rec_plain] \<and>
   label_of rec_plain = None \<and>
   written (merge_main fs_ex [''out.json'', ''a.json'', ''bad.json'', ''b.json'']) =
     Some (''out.json'', nodes_doc [rec_A, rec_plain, rec_plain]) \<and>
   filter (\<lambda>n. label_of n = None) (doc_nodes (nodes_doc [rec_A, rec_plain, rec_plain])) =
     [rec_plain, rec_plain] \<and>
   label_of (JNum 7) = None \<and> label_of JNull = None \<and>
   label_of rec_numbered = None \<and> label_of rec_huge = None \<and>
   written (merge_main fs_ex [''out.json'', ''odd.json'', ''odd.json'']) =
     Some (''out.json'',
           nodes_doc [JNum 7, JNull, rec_numbered, rec_huge, JNum 7, JNull, rec_numbered, rec_huge]) \<and>
   filter (\<lambda>n. label_of n = None)
     (doc_nodes (nodes_doc [JNum 7, JNull, rec_numbered, rec_huge,
                            JNum 7, JNull, rec_numbered, rec_huge])) =
     [JNum 7, JNull, rec_numbered, rec_huge, JNum 7, JNull, rec_numbered, rec_huge]"
proof -
  have stream: "input_stream fs_ex [''a.json'', ''bad.json'', ''b.json''] =
                  [rec_A, rec_plain, rec_B, rec_plain]"
    and odd: "input_stream fs_ex [''odd.json'', ''odd.json''] =
                [JNum 7, JNull, rec_numbered, rec_huge, JNum 7, JNull, rec_numbered, rec_huge]"
    by (simp_all add: input_stream_def file_nodes_def doc_nodes_def fs_ex_def nodes_doc_def)
  have labels: "label_of rec_plain = None" "label_of rec_A \<noteq> None" "label_of rec_B \<noteq> None"
    "label_of (JNum 7) = None" "label_of JNull = None" "label_of rec_numbered = None"
    "label_of rec_huge = None"
    by (simp_all add: label_of_def rec_A_def rec_B_def rec_plain_def rec_numbered_def
                      rec_huge_def float64_ok_def)
  have w: "\<not> mkdir_fails fs_ex ''out.json''" "\<not> write_fails fs_ex ''out.json''"
    by (simp_all add: fs_ex_def)
  from merge_pass_through [OF w, of "[''a.json'', ''bad.json'', ''b.json'']"] fs_ex_run stream labels
  have 1: "filter (\<lambda>n. label_of n = None) (doc_nodes (nodes_doc [rec_A, rec_plain, rec_plain])) =
             [rec_plain, rec_plain]"
    by auto
  from merge_pass_through [OF w, of "[''odd.json'', ''odd.json'']"] fs_ex_odd_run odd labels
  have 2: "filter (\<lambda>n. label_of n = None)
             (doc_nodes (nodes_doc [JNum 7, JNull, rec_numbered, rec_huge,
                                    JNum 7, JNull, rec_numbered, rec_huge])) =
             [JNum 7, JNull, rec_numbered, rec_huge, JNum 7, JNull, rec_numbered, rec_huge]"
    by auto
  from stream labels(1,4-7) fs_ex_run fs_ex_odd_run 1 2 show ?thesis by blast
qed

text \<open>
  C8. Merging an already-merged output file as the sole input produces an output
  identical to that input: the file \<open>doc\<close> written by one run, put under a path \<open>p\<close>
  and merged alone, is written again as \<open>doc\<close> (also when the output path is \<open>p\<close>
  itself).
\<close>

theorem merge_idempotent:
  assumes "written (merge_main env (outputFile # inputFiles)) = Some (path, doc)"
    and "file_at env' p = Doc doc"
    and "\<not> mkdir_fails env' outputFile'"
    and "\<not> write_fails env' outputFile'"
  shows "written (merge_main env' [outputFile', p]) = Some (outputFile', doc)"
proof -
  let ?ns = "dedup {} (input_stream env inputFiles)"
  have doc: "marshal_JSONData ?ns = Some doc"
    using assms(1) merge_main_written by blast
  have "doc_nodes doc = ?ns"
    using doc by (rule doc_nodes_marshal)
  then have "input_stream env' [p] = ?ns"
    using assms(2) by (simp add: input_stream_def file_nodes_def)
  then have "marshal_JSONData (dedup {} (input_stream env' [p])) = Some doc"
    using doc by (simp add: dedup_idem)
  with assms(3,4) show ?thesis
    by (rule merge_main_writes)
qed

theorem merge_idempotent_witness:
  "written (merge_main fs_ex [''merged.json'', ''merged.json'']) =
     Some (''merged.json'', nodes_doc [rec_A, rec_plain, rec_plain])"
proof -
  have "file_at fs_ex ''merged.json'' = Doc (nodes_doc [rec_A, rec_plain, rec_plain])"
    and "\<not> mkdir_fails fs_ex ''merged.json''" and "\<not> write_fails fs_ex ''merged.json''"
    by (simp_all add: fs_ex_def)
  then show ?thesis
    by (rule merge_idempotent [OF fs_ex_run])
qed

lemma skipped_no_nodes: "missing env p \<or> bad_input env p \<Longrightarrow> file_nodes env p = []"
  by (auto simp: missing_def bad_input_def file_nodes_def doc_nodes_def
           split: input_file.splits sum.splits)

lemma merge_main_stream:
  "input_stream env ins = input_stream env ins' \<Longrightarrow>
   written (merge_main env (out # ins)) = written (merge_main env (out # ins')) \<and>
   exit_code (merge_main env (out # ins)) = exit_code (merge_main env (out # ins'))"
  by (simp add: mergeJSONFiles_def Let_def merged_nodes_closed split: option.splits)

lemma merge_main_stderr:
  "stderr_out (merge_main env (out # ins)) =
     concat (map (file_warnings env) ins) @
     (if mkdir_fails env out then [ErrorLine MkdirFailed]
      else if write_fails env out then [ErrorLine WriteFailed] else [])"
  by (simp add: mergeJSONFiles_def Let_def diag_closed marshal_JSONData_def)

lemma merge_main_exit:
  "exit_code (merge_main env args) =
     (case args of
        [] \<Rightarrow> 1
      | out # ins \<Rightarrow> if mkdir_fails env out \<or> write_fails env out then 1 else 0)"
  by (cases args) (simp_all add: mergeJSONFiles_def Let_def marshal_JSONData_def)

text \<open>
  C6, as amended. For every invocation of the merger: a missing input file is skipped
  with no diagnostic and no error; a present-but-unreadable or unparseable input file is
  skipped after one warning on standard error; in both cases the remaining inputs are
  processed, and the output and the exit code are those of the run without that file;
  standard error holds these warnings in the order of the arguments, and nothing else
  unless the output fails; the process exits 1 when it is invoked without an
  output-file argument or when creating the output directory or writing the output file
  fails, and 0 in every other case.
\<close>

theorem merge_skips_and_exit_code:
  "(missing env p \<longrightarrow> process_file env p st = st \<and> file_warnings env p = []) \<and>
   (bad_input env p \<longrightarrow>
      process_file env p st = st\<lparr>diag := diag st @ file_warnings env p\<rparr> \<and>
      (file_warnings env p = [WarnRead p] \<or> file_warnings env p = [WarnParse p])) \<and>
   (missing env p \<or> bad_input env p \<longrightarrow>
      written (merge_main env (out # ps @ p # qs)) = written (merge_main env (out # ps @ qs)) \<and>
      exit_code (merge_main env (out # ps @ p # qs)) = exit_code (merge_main env (out # ps @ qs))) \<and>
   stderr_out (merge_main env (out # ps)) =
     concat (map (file_warnings env) ps) @
     (if mkdir_fails env out then [ErrorLine MkdirFailed]
      else if write_fails env out then [ErrorLine WriteFailed] else []) \<and>
   exit_code (merge_main env args) =
     (case args of
        [] \<Rightarrow> 1
      | outputFile # inputFiles \<Rightarrow>
          if mkdir_fails env outputFile \<or> write_fails env outputFile then 1 else 0)"
proof -
  have a: "missing env p \<longrightarrow> process_file env p st = st \<and> file_warnings env p = []"
    by (simp add: missing_def process_file_def file_warnings_def)
  have b: "bad_input env p \<longrightarrow>
             process_file env p st = st\<lparr>diag := diag st @ file_warnings env p\<rparr> \<and>
             (file_warnings env p = [WarnRead p] \<or> file_warnings env p = [WarnParse p])"
    by (auto simp: bad_input_def process_file_def file_warnings_def
             split: input_file.splits sum.splits)
  have c: "missing env p \<or> bad_input env p \<longrightarrow>
             written (merge_main env (out # ps @ p # qs)) = written (merge_main env (out # ps @ qs)) \<and>
             exit_code (merge_main env (out # ps @ p # qs)) = exit_code (merge_main env (out # ps @ qs))"
  proof
    assume "missing env p \<or> bad_input env p"
    then have "file_nodes env p = []" by (rule skipped_no_nodes)
    then have "input_stream env (ps @ p # qs) = input_stream env (ps @ qs)"
      by (simp add: input_stream_def)
    then show "written (merge_main env (out # ps @ p # qs)) = written (merge_main env (out # ps @ qs)) \<and>
             exit_code (merge_main env (out # ps @ p # qs)) = exit_code (merge_main env (out # ps @ qs))"
      by (rule merge_main_stream)
  qed
  from a b c merge_main_stderr [of env out ps] merge_main_exit [of env args]
  show ?thesis by blast
qed

theorem merge_skips_and_exit_code_witness:
  "missing fs_ex ''none.json'' \<and> bad_input fs_ex ''bad.json'' \<and> bad_input fs_ex ''dir'' \<and>
   process_file fs_ex ''none.json'' init_state = init_state \<and>
   process_file fs_ex ''bad.json'' init_state = init_state\<lparr>diag := [WarnParse ''bad.json'']\<rparr> \<and>
   process_file fs_ex ''dir'' init_state = init_state\<lparr>diag := [WarnRead ''dir'']\<rparr> \<and>
   written (merge_main fs_ex [''out.json'', ''a.json'', ''b.json'']) =
     Some (''out.json'', nodes_doc [rec_A, rec_plain, rec_plain]) \<and>
   exit_code (merge_main fs_ex [''out.json'', ''a.json'', ''b.json'']) = 0 \<and>
   stderr_out (merge_main fs_ex [''out.json'', ''none.json'', ''bad.json'', ''dir'']) =
     [WarnParse ''bad.json'', WarnRead ''dir''] \<and>
   exit_code (merge_main fs_ex [''/ro/out.json'', ''a.json'']) = 1"
proof -
  have m: "missing fs_ex ''none.json''"
    by (simp add: missing_def fs_ex_def)
  have u: "bad_input fs_ex ''bad.json''" "bad_input fs_ex ''dir''"
    by (simp_all add: bad_input_def fs_ex_def)
  have w: "file_warnings fs_ex ''none.json'' = []"
    "file_warnings fs_ex ''bad.json'' = [WarnParse ''bad.json'']"
    "file_warnings fs_ex ''dir'' = [WarnRead ''dir'']"
    by (simp_all add: file_warnings_def fs_ex_def)
  have e: "exit_code (merge_main fs_ex [''out.json'', ''a.json'', ''bad.json'', ''b.json'']) = 0"
    using fs_ex_run by (auto simp: Let_def split: option.splits)
  have i: "diag init_state = []"
    by (simp add: init_state_def)
  have r: "\<not> mkdir_fails fs_ex ''/ro/out.json'' \<and> write_fails fs_ex ''/ro/out.json'' \<and>
           \<not> mkdir_fails fs_ex ''out.json'' \<and> \<not> write_fails fs_ex ''out.json''"
    by (simp add: fs_ex_def)
  from merge_skips_and_exit_code
         [of fs_ex "''none.json''" init_state "''out.json''" "[''none.json'', ''bad.json'', ''dir'']" "[]" "[]"]
       m w r
  have 1: "process_file fs_ex ''none.json'' init_state = init_state"
    and 7: "stderr_out (merge_main fs_ex [''out.json'', ''none.json'', ''bad.json'', ''dir'']) =
              [WarnParse ''bad.json'', WarnRead ''dir'']"
    by auto
  from merge_skips_and_exit_code
         [of fs_ex "''bad.json''" init_state "''out.json''" "[''a.json'']" "[''b.json'']" "[]"]
       u(1) w(2) fs_ex_run e i
  have 2: "process_file fs_ex ''bad.json'' init_state = init_state\<lparr>diag := [WarnParse ''bad.json'']\<rparr>"
    and 4: "written (merge_main fs_ex [''out.json'', ''a.json'', ''b.json'']) =
              Some (''out.json'', nodes_doc [rec_A, rec_plain, rec_plain])"
    and 5: "exit_code (merge_main fs_ex [''out.json'', ''a.json'', ''b.json'']) = 0"
    by auto
  from merge_skips_and_exit_code
         [of fs_ex "''dir''" init_state "''out.json''" "[]" "[]" "[''/ro/out.json'', ''a.json'']"]
       u(2) w(3) i r
  have 3: "process_file fs_ex ''dir'' init_state = init_state\<lparr>diag := [WarnRead ''dir'']\<rparr>"
    and 6: "exit_code (merge_main fs_ex [''/ro/out.json'', ''a.json'']) = 1"
    by auto
  from m u 1 2 3 4 5 6 7 show ?thesis by blast
qed

text \<open>
  C6 as stated fails: invoked without an output-file argument, the merger prints its
  usage line and exits 1, though no output write failed (none was attempted).
\<close>

theorem merge_usage_counterexample:
  "exit_code (merge_main fs_ex []) = 1 \<and>
   stderr_out (merge_main fs_ex []) = [Usage] \<and>
   written (merge_main fs_ex []) = None"
  by simp


section \<open>Call graphs: the loops in closed form\<close>







































section \<open>Call graphs: the properties\<close>






































section \<open>Fact-file names: the properties\<close>

lemma str_replace_keeps_out:
  "x \<notin> set s \<Longrightarrow> x \<notin> set new \<Longrightarrow> x \<notin> set (str_replace s old new)"
proof (induction s old new rule: str_replace.induct)
  case (1 old new)
  then show ?case by simp
next
  case (2 c cs old new)
  have d: "x \<notin> set (drop (length old) (c # cs))"
    using "2.prems"(1) by (meson in_set_dropD)
  show ?case
  proof (cases "old = []")
    case True
    with 2 show ?thesis by simp
  next
    case False
    show ?thesis
    proof (cases "HasPrefix (c # cs) old")
      case True
      with False "2.IH"(2) d "2.prems"(2) show ?thesis by simp
    next
      case h: False
      with False "2.IH"(3) "2.prems" show ?thesis by simp
    qed
  qed
qed

lemma str_replace_removes:
  "x \<notin> set new \<Longrightarrow> x \<notin> set (str_replace s [x] new)"
  by (induction s "[x]" new rule: str_replace.induct) auto

lemma str_replace_char:
  "str_replace s [x] [y] = map (\<lambda>c. if c = x then y else c) s"
  by (induction s "[x]" "[y]" rule: str_replace.induct) auto

text \<open>
  C9, as amended. The fact-file naming function depends on the label alone, so for
  every label it always yields the same filename: \<^verbatim>\<open>@//\<close> and \<^verbatim>\<open>//:\<close> become an
  underscore, every other \<^verbatim>\<open>@\<close> is removed, every \<^verbatim>\<open>/\<close> and \<^verbatim>\<open>:\<close> becomes an
  underscore, and one leading underscore is stripped, so that no \<^verbatim>\<open>/\<close>, \<^verbatim>\<open>:\<close> or
  \<^verbatim>\<open>@\<close> is left in the filename. It is not collision-free: distinct labels can
  yield the same filename.
\<close>

theorem naming_safe_filename:
  "CHR ''/'' \<notin> set (compute_package_version_name target) \<and>
   CHR '':'' \<notin> set (compute_package_version_name target) \<and>
   CHR ''@'' \<notin> set (compute_package_version_name target) \<and>
   compute_package_version_name target =
     (let target_path =
            map (\<lambda>c. if c = CHR ''/'' \<or> c = CHR '':'' then CHR ''_'' else c)
              (str_replace (str_replace (str_replace target ''@//'' ''_'') ''@'' '''') ''//:'' ''_'')
      in if HasPrefix target_path ''_'' then drop 1 target_path else target_path)"
proof -
  define t1 where "t1 = str_replace target ''@//'' ''_''"
  define t2 where "t2 = str_replace t1 ''@'' ''''"
  define t3 where "t3 = str_replace t2 ''//:'' ''_''"
  define t4 where "t4 = str_replace t3 ''/'' ''_''"
  define t5 where "t5 = str_replace t4 '':'' ''_''"
  have name: "compute_package_version_name target =
                (if HasPrefix t5 ''_'' then drop 1 t5 else t5)"
    by (simp add: compute_package_version_name_def Let_def t1_def t2_def t3_def t4_def t5_def)
  have at2: "CHR ''@'' \<notin> set t2"
    unfolding t2_def by (rule str_replace_removes) simp
  have at5: "CHR ''@'' \<notin> set t5"
    unfolding t5_def t4_def t3_def using at2 by (intro str_replace_keeps_out) simp_all
  have slash4: "CHR ''/'' \<notin> set t4"
    unfolding t4_def by (rule str_replace_removes) simp
  have slash5: "CHR ''/'' \<notin> set t5"
    unfolding t5_def using slash4 by (intro str_replace_keeps_out) simp_all
  have colon5: "CHR '':'' \<notin> set t5"
    unfolding t5_def by (rule str_replace_removes) simp
  have closed: "t5 = map (\<lambda>c. if c = CHR ''/'' \<or> c = CHR '':'' then CHR ''_'' else c) t3"
    unfolding t5_def t4_def by (simp add: str_replace_char)
  have sub: "set (drop 1 t5) \<subseteq> set t5"
    by (rule set_drop_subset)
  from at5 slash5 colon5 sub
  have safe: "CHR ''/'' \<notin> set (compute_package_version_name target) \<and>
              CHR '':'' \<notin> set (compute_package_version_name target) \<and>
              CHR ''@'' \<notin> set (compute_package_version_name target)"
    unfolding name by auto
  have form: "compute_package_version_name target =
     (let target_path =
            map (\<lambda>c. if c = CHR ''/'' \<or> c = CHR '':'' then CHR ''_'' else c)
              (str_replace (str_replace (str_replace target ''@//'' ''_'') ''@'' '''') ''//:'' ''_'')
      in if HasPrefix target_path ''_'' then drop 1 target_path else target_path)"
    unfolding name Let_def closed t3_def t2_def t1_def by (rule refl)
  from safe form show ?thesis by blast
qed

theorem naming_safe_filename_witness:
  "compute_package_version_name ''@//src/main:main'' = ''src_main_main'' \<and>
   CHR ''/'' \<notin> set ''src_main_main'' \<and> CHR '':'' \<notin> set ''src_main_main'' \<and>
   CHR ''@'' \<notin> set ''src_main_main''"
proof -
  have "compute_package_version_name ''@//src/main:main'' = ''src_main_main''"
    by (simp add: compute_package_version_name_def)
  then show ?thesis
    using naming_safe_filename [of "''@//src/main:main''"] by simp
qed

text \<open>
  C9 as stated fails: the labels \<^verbatim>\<open>@//src/utils:lib\<close> and \<^verbatim>\<open>@//src:utils_lib\<close> are
  distinct and get the same filename.
\<close>

theorem naming_collision_counterexample:
  "compute_package_version_name ''@//src/utils:lib'' = ''src_utils_lib'' \<and>
   compute_package_version_name ''@//src:utils_lib'' = ''src_utils_lib'' \<and>
   ''@//src/utils:lib'' \<noteq> ''@//src:utils_lib''"
  by (simp add: compute_package_version_name_def)

end
